theory Spec2Isabelle
  imports Complex_Main "HOL-Library.Sublist" "HOL-Library.List_Lexorder" "HOL-Library.Char_ord"
begin

section \<open>JavaScript values\<close>

text \<open>
  The pages of the frontend work on JSON rows delivered by the backend. A JavaScript
  number is a double: \<open>NaN\<close>, the two infinities, or a finite value (read as a real).
  \<open>num_lt\<close> is the operator \<open><\<close> on numbers: every comparison with \<open>NaN\<close> is false.
\<close>

datatype jsnum = NaN | NegInf | Fin real | PosInf

fun num_lt :: "jsnum \<Rightarrow> jsnum \<Rightarrow> bool" where
  "num_lt NaN _ = False"
| "num_lt _ NaN = False"
| "num_lt NegInf NegInf = False"
| "num_lt NegInf _ = True"
| "num_lt (Fin x) (Fin y) = (x < y)"
| "num_lt (Fin x) PosInf = True"
| "num_lt (Fin x) NegInf = False"
| "num_lt PosInf _ = False"

datatype jsval = JNull | JUndefined | JBool bool | JNum jsnum | JStr string

text \<open>A row is a JSON object; reading a property that is absent gives \<open>undefined\<close>.\<close>

type_synonym row = "(string \<times> jsval) list"

definition field :: "row \<Rightarrow> string \<Rightarrow> jsval" where
  "field r k = (case map_of r k of None \<Rightarrow> JUndefined | Some v \<Rightarrow> v)"

text \<open>\<open>Array.prototype.slice(start, end)\<close> on integer arguments: a negative index counts
  from the end, and both indices are clamped to the array.\<close>

definition js_slice :: "'a list \<Rightarrow> int \<Rightarrow> int \<Rightarrow> 'a list" where
  "js_slice xs s e =
     (let n = int (length xs);
          k = (if s < 0 then max (n + s) 0 else min s n);
          f = (if e < 0 then max (n + e) 0 else min e n)
      in take (nat (f - k)) (drop (nat k) xs))"

text \<open>
  Strings are lists of code units. \<open>toLowerCase\<close> and \<open>toUpperCase\<close> are modelled on
  the ASCII letters; every other code unit is left as it is.
\<close>

definition lower_char :: "char \<Rightarrow> char" where
  "lower_char c = (if CHR ''A'' \<le> c \<and> c \<le> CHR ''Z'' then char_of (of_char c + (32::nat)) else c)"

definition upper_char :: "char \<Rightarrow> char" where
  "upper_char c = (if CHR ''a'' \<le> c \<and> c \<le> CHR ''z'' then char_of (of_char c - (32::nat)) else c)"

definition toLowerCase :: "string \<Rightarrow> string" where
  "toLowerCase s = map lower_char s"

definition toUpperCase :: "string \<Rightarrow> string" where
  "toUpperCase s = map upper_char s"

text \<open>\<open>String(n)\<close> of a natural number: its decimal digits.\<close>

fun show_nat :: "nat \<Rightarrow> string" where
  "show_nat n = (if n < 10 then [char_of (48 + n)] else show_nat (n div 10) @ [char_of (48 + n mod 10)])"

declare show_nat.simps [simp del]

definition padStart :: "nat \<Rightarrow> char \<Rightarrow> string \<Rightarrow> string" where
  "padStart n c s = replicate (n - length s) c @ s"

text \<open>
  The built-ins whose results the pages only pass on are parameters: the parser behind
  \<open>parseFloat\<close>, the timestamp of \<open>new Date(v).getTime()\<close> (\<open>NaN\<close> for an invalid
  date), \<open>Number.prototype.toString\<close>, \<open>Date.prototype.toISOString\<close>, the clock and
  the draws of \<open>Math.random()\<close> (indexed by row, column and position in the cell).
\<close>

record js_env =
  parseFloat_str :: "string \<Rightarrow> jsnum"
  date_getTime :: "jsval \<Rightarrow> jsnum"
  number_toString :: "jsnum \<Rightarrow> string"
  toISOString :: "real \<Rightarrow> string"
  random :: "nat \<Rightarrow> string \<Rightarrow> nat \<Rightarrow> real"
  now :: real

text \<open>\<open>value.toString()\<close> for the values a row holds (never called on null or undefined,
  where it would throw).\<close>

definition toString :: "js_env \<Rightarrow> jsval \<Rightarrow> string" where
  "toString E v =
     (case v of
        JStr s \<Rightarrow> s
      | JNum n \<Rightarrow> number_toString E n
      | JBool b \<Rightarrow> (if b then ''true'' else ''false'')
      | JNull \<Rightarrow> ''null''
      | JUndefined \<Rightarrow> ''undefined'')"

definition parseFloat :: "js_env \<Rightarrow> jsval \<Rightarrow> jsnum" where
  "parseFloat E v = parseFloat_str E (toString E v)"

text \<open>\<open>x || 0\<close> on a number: the falsy numbers are \<open>NaN\<close> and zero.\<close>

definition or_zero :: "jsnum \<Rightarrow> jsnum" where
  "or_zero n = (if n = NaN \<or> n = Fin 0 then Fin 0 else n)"

text \<open>
  \<open>Array.prototype.sort(compare)\<close>. The language fixes the result, not the algorithm:
  the sort is stable and calls \<open>compare\<close> on pairs of elements. It is modelled by the
  stable insertion sort: an element goes in front of the first later one that the
  comparator does not put before it.
\<close>

fun js_insert :: "('a \<Rightarrow> 'a \<Rightarrow> int) \<Rightarrow> 'a \<Rightarrow> 'a list \<Rightarrow> 'a list" where
  "js_insert cmp x [] = [x]"
| "js_insert cmp x (y # ys) = (if cmp x y \<le> 0 then x # y # ys else y # js_insert cmp x ys)"

fun js_sort :: "('a \<Rightarrow> 'a \<Rightarrow> int) \<Rightarrow> 'a list \<Rightarrow> 'a list" where
  "js_sort cmp [] = []"
| "js_sort cmp (x # xs) = js_insert cmp x (js_sort cmp xs)"

section \<open>ManageSource.jsx: the state of the page\<close>

datatype col_type = TNumber | TString | TDate | TDatetime

record column =
  col_key :: string
  col_label :: string
  col_type :: col_type

record table_config =
  cfg_name :: string
  cfg_columns :: "column list"

definition col :: "string \<Rightarrow> string \<Rightarrow> col_type \<Rightarrow> column" where
  "col k l t = \<lparr>col_key = k, col_label = l, col_type = t\<rparr>"

definition TABLE_CONFIGS :: "(string \<times> table_config) list" where
  "TABLE_CONFIGS =
    [(''InspectionData'', \<lparr>cfg_name = ''Inspection Data'', cfg_columns =
       [col ''ID'' ''ID'' TNumber,
        col ''Inspection_ID'' ''Inspection ID'' TNumber,
        col ''Machine_Type'' ''Machine Type'' TString,
        col ''Model_Code'' ''Model Code'' TString,
        col ''Serial_No'' ''Serial Number'' TString,
        col ''Inspected_By'' ''Inspector'' TString,
        col ''Equipment_Number'' ''Equipment Number'' TString,
        col ''SMR'' ''SMR Hours'' TNumber,
        col ''Delivery_Date'' ''Delivery Date'' TDate,
        col ''Inspection_Date'' ''Inspection Date'' TDate,
        col ''Branch_Name'' ''Branch'' TString,
        col ''Customer_Name'' ''Customer'' TString,
        col ''Job_Site'' ''Job Site'' TString,
        col ''WorkingHourPerDay'' ''Working Hours/Day'' TNumber,
        col ''UnderfootConditions_Terrain'' ''Terrain'' TString,
        col ''UnderfootConditions_Abrasive'' ''Abrasive Level'' TString,
        col ''Link_Type'' ''Link Type'' TString,
        col ''Link_Spec'' ''Link Specification'' TString,
        col ''Bushing_Spec'' ''Bushing Spec'' TString,
        col ''Track_Roller_Spec'' ''Track Roller Spec'' TString,
        col ''ApplicationCode_Major'' ''Application Major'' TString,
        col ''ApplicationCode_Minor'' ''Application Minor'' TString,
        col ''Attachments'' ''Attachments'' TString,
        col ''Comments'' ''Comments'' TString]\<rparr>),
     (''Machine_Tracking'', \<lparr>cfg_name = ''Machine Tracking'', cfg_columns =
       [col ''ID'' ''ID'' TNumber,
        col ''Model'' ''Model'' TString,
        col ''Type'' ''Type'' TString,
        col ''Serial'' ''Serial Number'' TString,
        col ''Delivery_Date_EQP_Care'' ''Delivery Date'' TDate,
        col ''Machine_Location'' ''Machine Location'' TString,
        col ''Latitude'' ''Latitude'' TNumber,
        col ''Longitude'' ''Longitude'' TNumber,
        col ''GPS_Time'' ''GPS Time'' TDatetime,
        col ''SMR_Hours'' ''SMR Hours'' TNumber,
        col ''Last_Communication_Date'' ''Last Communication'' TDatetime]\<rparr>),
     (''UC_Life_Time'', \<lparr>cfg_name = ''UC Life Time'', cfg_columns =
       [col ''ID'' ''ID'' TNumber,
        col ''Model'' ''Model'' TString,
        col ''General_Sand'' ''General Sand'' TString,
        col ''Soil'' ''Soil'' TString,
        col ''Marsh'' ''Marsh'' TString,
        col ''Coal'' ''Coal'' TString,
        col ''Hard_Rock'' ''Hard Rock'' TString,
        col ''Brittle_Rock'' ''Brittle Rock'' TString,
        col ''Pure_Sand_Middle_East'' ''Pure Sand Middle East'' TString,
        col ''Component'' ''Component'' TString]\<rparr>)]"

text \<open>\<open>Object.keys(TABLE_CONFIGS)\<close>, from which the table buttons are rendered.\<close>

definition table_keys :: "string list" where
  "table_keys = map fst TABLE_CONFIGS"

datatype direction = Asc | Desc

record sort_config =
  key :: "string option"
  direction :: direction

record manage_source =
  selectedTable :: string
  tableData :: "row list"
  filteredData :: "row list"
  loading :: bool
  selectedRows :: "jsval set"
  searchTerm :: string
  sortConfig :: sort_config
  showDeleteConfirm :: bool
  currentPage :: int
  rowsPerPage :: int

definition ManageSource_init :: manage_source where
  "ManageSource_init =
     \<lparr>selectedTable = ''InspectionData'', tableData = [], filteredData = [], loading = True,
      selectedRows = {}, searchTerm = [], sortConfig = \<lparr>key = None, direction = Asc\<rparr>,
      showDeleteConfirm = False, currentPage = 1, rowsPerPage = 25\<rparr>"

subsection \<open>handleSelectRow\<close>

definition handleSelectRow :: "jsval \<Rightarrow> manage_source \<Rightarrow> manage_source" where
  "handleSelectRow rid st =
     (let newSelected = selectedRows st;
          newSelected' = (if rid \<in> newSelected then newSelected - {rid} else insert rid newSelected)
      in st\<lparr>selectedRows := newSelected'\<rparr>)"

subsection \<open>getPaginatedData and totalPages\<close>

definition getPaginatedData :: "manage_source \<Rightarrow> row list" where
  "getPaginatedData st =
     (let startIndex = (currentPage st - 1) * rowsPerPage st;
          endIndex = startIndex + rowsPerPage st
      in js_slice (filteredData st) startIndex endIndex)"

text \<open>\<open>Math.ceil(filteredData.length / rowsPerPage)\<close>: a division by zero gives
  \<open>NaN\<close> (0/0) or \<open>Infinity\<close>.\<close>

definition totalPages :: "manage_source \<Rightarrow> jsnum" where
  "totalPages st =
     (if rowsPerPage st = 0
      then (if filteredData st = [] then NaN else PosInf)
      else Fin (of_int \<lceil>real (length (filteredData st)) / real_of_int (rowsPerPage st)\<rceil>))"

subsection \<open>handleTableChange, handleSort and the plain setters\<close>

definition handleTableChange :: "string \<Rightarrow> manage_source \<Rightarrow> manage_source" where
  "handleTableChange tableName st =
     st\<lparr>selectedTable := tableName, searchTerm := [],
        sortConfig := \<lparr>key = None, direction = Asc\<rparr>, currentPage := 1\<rparr>"

definition handleSort :: "string \<Rightarrow> manage_source \<Rightarrow> manage_source" where
  "handleSort k st =
     (let dir = (if key (sortConfig st) = Some k \<and> direction (sortConfig st) = Asc
                 then Desc else Asc)
      in st\<lparr>sortConfig := \<lparr>key = Some k, direction = dir\<rparr>\<rparr>)"

definition setSearchTerm :: "string \<Rightarrow> manage_source \<Rightarrow> manage_source" where
  "setSearchTerm s st = st\<lparr>searchTerm := s\<rparr>"

definition setCurrentPage :: "int \<Rightarrow> manage_source \<Rightarrow> manage_source" where
  "setCurrentPage p st = st\<lparr>currentPage := p\<rparr>"

text \<open>The \<open>onChange\<close> handler of the rows-per-page selector.\<close>

definition changeRowsPerPage :: "int \<Rightarrow> manage_source \<Rightarrow> manage_source" where
  "changeRowsPerPage n st = st\<lparr>rowsPerPage := n, currentPage := 1\<rparr>"

subsection \<open>generateSampleData\<close>

datatype error = TypeError

record sample_template =
  machines :: "string list option"
  branches :: "string list option"
  customers :: "string list option"
  inspectors :: "string list option"
  terrain :: "string list option"
  abrasive :: "string list option"
  models :: "string list option"
  types :: "string list option"
  locations :: "string list option"
  coordinates :: "(real \<times> real) list option"
  components :: "string list option"
  terrainValues :: "string list option"

definition no_template :: sample_template where
  "no_template =
     \<lparr>machines = None, branches = None, customers = None, inspectors = None, terrain = None,
      abrasive = None, models = None, types = None, locations = None, coordinates = None,
      components = None, terrainValues = None\<rparr>"

definition sampleTemplates :: "(string \<times> sample_template) list" where
  "sampleTemplates =
    [(''InspectionData'', no_template
        \<lparr>machines := Some [''PC200-8'', ''PC350-8'', ''D65PX-18'', ''WA380-8'', ''GD555-6''],
         branches := Some [''Jakarta'', ''Balikpapan'', ''Surabaya'', ''Bandung'', ''Palembang''],
         customers := Some [''PT Adaro'', ''PT Bukit Asam'', ''PT Vale'', ''PT Antam'', ''PT Pertamina''],
         inspectors := Some [''John Doe'', ''Jane Smith'', ''Ahmad Rizki'', ''Siti Nurhaliza'', ''Budi Santoso''],
         terrain := Some [''Rocky'', ''Sandy'', ''Muddy'', ''Normal'', ''Extreme''],
         abrasive := Some [''Low'', ''Medium'', ''High'', ''Very High'']\<rparr>),
     (''Machine_Tracking'', no_template
        \<lparr>models := Some [''PC200-8'', ''PC350-8'', ''D65PX-18'', ''WA380-8'', ''GD555-6''],
         types := Some [''Excavator'', ''Bulldozer'', ''Wheel Loader'', ''Dump Truck'', ''Motor Grader''],
         locations := Some [''Jakarta Site'', ''Balikpapan Mine'', ''Surabaya Port'', ''Bandung Quarry'', ''Palembang Plant''],
         coordinates := Some [(- 62088 / 10000, 1068456 / 10000), (- 12379 / 10000, 1168529 / 10000),
                              (- 72575 / 10000, 1127521 / 10000), (- 69175 / 10000, 1076191 / 10000),
                              (- 29761 / 10000, 1047754 / 10000)]\<rparr>),
     (''UC_Life_Time'', no_template
        \<lparr>models := Some [''PC200-8'', ''PC350-8'', ''D65PX-18'', ''WA380-8'', ''GD555-6''],
         components := Some [''Track Chain'', ''Sprocket'', ''Idler'', ''Track Roller'', ''Drive Motor'', ''Final Drive''],
         terrainValues := Some [''Low'', ''Medium'', ''High'', ''Very High'', ''Extreme'']\<rparr>)]"

text \<open>\<open>template?.f\<close>: undefined when the template itself is.\<close>

definition tfield :: "(sample_template \<Rightarrow> 'a option) \<Rightarrow> sample_template option \<Rightarrow> 'a option" where
  "tfield f t = (case t of None \<Rightarrow> None | Some tm \<Rightarrow> f tm)"

text \<open>\<open>template?.xs?.[Math.floor(Math.random() * template.xs.length)] || fallback\<close>:
  the draw \<open>r\<close> is taken only when the list is there; a read outside the list or an
  empty string gives the fallback.\<close>

definition pick :: "string list option \<Rightarrow> real \<Rightarrow> string \<Rightarrow> jsval" where
  "pick xs r fallback =
     (case xs of
        None \<Rightarrow> JStr fallback
      | Some l \<Rightarrow>
          (let i = \<lfloor>r * real (length l)\<rfloor>
           in if 0 \<le> i \<and> i < int (length l) \<and> l ! nat i \<noteq> [] then JStr (l ! nat i)
              else JStr fallback))"

definition show_int :: "int \<Rightarrow> string" where
  "show_int n = (if n < 0 then CHR ''-'' # show_nat (nat (- n)) else show_nat (nat n))"

text \<open>\<open>new Date(Date.now() - Math.random() * span).toISOString()\<close>, and its part before
  the first \<open>T\<close> when \<open>.split('T')[0]\<close> follows.\<close>

definition iso_before :: "js_env \<Rightarrow> real \<Rightarrow> real \<Rightarrow> string" where
  "iso_before E r ms = toISOString E (now E - r * ms)"

definition iso_day_before :: "js_env \<Rightarrow> real \<Rightarrow> real \<Rightarrow> string" where
  "iso_day_before E r ms = takeWhile (\<lambda>c. c \<noteq> CHR ''T'') (iso_before E r ms)"

text \<open>One coordinate of the sample rows: \<open>sel\<close> is \<open>lat\<close> or \<open>lng\<close>; a missing or zero
  coordinate gives \<open>base + Math.random() * width\<close>.\<close>

definition sample_coord ::
  "((real \<times> real) \<Rightarrow> real) \<Rightarrow> (real \<times> real) list option \<Rightarrow> real \<Rightarrow> real \<Rightarrow> real \<Rightarrow> real \<Rightarrow> jsval" where
  "sample_coord sel cs r1 r2 base width =
     (let n = (case cs of None \<Rightarrow> 5 | Some l \<Rightarrow> (if length l = 0 then 5 else length l));
          coordIndex = \<lfloor>r1 * real n\<rfloor>;
          found = (case cs of
                     None \<Rightarrow> None
                   | Some l \<Rightarrow> (if 0 \<le> coordIndex \<and> coordIndex < int (length l)
                                then Some (sel (l ! nat coordIndex)) else None))
      in case found of
           None \<Rightarrow> JNum (Fin (base + r2 * width))
         | Some x \<Rightarrow> (if x = 0 then JNum (Fin (base + r2 * width)) else JNum (Fin x)))"

text \<open>The \<open>switch (column.key)\<close> that fills one cell of sample row \<open>i\<close>.\<close>

definition sample_cell :: "js_env \<Rightarrow> string \<Rightarrow> sample_template option \<Rightarrow> nat \<Rightarrow> string \<Rightarrow> jsval" where
  "sample_cell E tableName template i k =
     (let r = random E i k;
          day = 24 * 60 * 60 * 1000
      in
      if k = ''ID'' then JNum (Fin (real i))
      else if k = ''Inspection_ID'' then JNum (Fin (119550 + real i))
      else if k = ''Machine_ID'' \<or> k = ''Component_ID''
        then JStr (toUpperCase (take 3 tableName) @ padStart 4 CHR ''0'' (show_nat i))
      else if k = ''Machine_Type'' \<or> k = ''Model_Code'' \<or> k = ''Model''
        then pick (tfield machines template) (r 0) (''Model-'' @ show_nat i)
      else if k = ''Serial_No'' \<or> k = ''Serial_Number''
        then JStr (''SN'' @ show_int (\<lfloor>r 0 * 900000\<rfloor> + 100000))
      else if k = ''Inspected_By''
        then pick (tfield inspectors template) (r 0) (''Inspector '' @ show_nat i)
      else if k = ''Branch_Name''
        then pick (tfield branches template) (r 0) (''Branch '' @ show_nat i)
      else if k = ''Customer_Name''
        then pick (tfield customers template) (r 0) (''Customer '' @ show_nat i)
      else if k = ''Equipment_Number''
        then JStr (''EX-'' @ padStart 4 CHR ''0'' (show_nat i))
      else if k = ''Job_Site''
        then JStr (''Job Site '' @ [char_of (65 + i mod 26)])
      else if k = ''UnderfootConditions_Terrain''
        then pick (tfield terrain template) (r 0) ''Normal''
      else if k = ''UnderfootConditions_Abrasive''
        then pick (tfield abrasive template) (r 0) ''Medium''
      else if k = ''Type''
        then pick (tfield types template) (r 0) (''Type '' @ show_nat i)
      else if k = ''Serial''
        then JStr (''SN'' @ show_int (\<lfloor>r 0 * 900000\<rfloor> + 100000))
      else if k = ''Delivery_Date_EQP_Care''
        then JStr (iso_day_before E (r 0) (365 * 3 * day))
      else if k = ''Machine_Location''
        then pick (tfield locations template) (r 0) (''Location '' @ show_nat i)
      else if k = ''Latitude''
        then sample_coord fst (tfield coordinates template) (r 0) (r 1) (- 6) 5
      else if k = ''Longitude''
        then sample_coord snd (tfield coordinates template) (r 0) (r 1) 104 10
      else if k = ''GPS_Time'' \<or> k = ''Last_Communication_Date''
        then JStr (iso_before E (r 0) (7 * day))
      else if k = ''General_Sand'' \<or> k = ''Soil'' \<or> k = ''Marsh'' \<or> k = ''Coal''
              \<or> k = ''Hard_Rock'' \<or> k = ''Brittle_Rock'' \<or> k = ''Pure_Sand_Middle_East''
        then pick (tfield terrainValues template) (r 0) ''Medium''
      else if k = ''Component''
        then pick (tfield components template) (r 0) (''Component '' @ show_nat i)
      else if k = ''SMR'' \<or> k = ''SMR_Hours'' \<or> k = ''Current_Hours''
        then JNum (Fin (of_int (\<lfloor>r 0 * 50000\<rfloor> + 1000)))
      else if k = ''WorkingHourPerDay''
        then JNum (Fin (of_int (\<lfloor>r 0 * 16\<rfloor> + 8)))
      else if k = ''Expected_Life_Hours''
        then JNum (Fin (of_int (\<lfloor>r 0 * 20000\<rfloor> + 10000)))
      else if k = ''Remaining_Life_Hours''
        then JNum (Fin (of_int (\<lfloor>r 0 * 15000\<rfloor> + 1000)))
      else if k = ''Delivery_Date'' \<or> k = ''Installation_Date''
        then JStr (iso_day_before E (r 0) (365 * 2 * day))
      else if k = ''Inspection_Date'' \<or> k = ''Last_Maintenance_Date''
        then JStr (iso_day_before E (r 0) (30 * day))
      else if k = ''Last_Updated''
        then JStr (iso_before E (r 0) (7 * day))
      else JStr (''Sample '' @ show_nat i))"

definition sampleSize :: nat where
  "sampleSize = 1000"

text \<open>The body of the loop \<open>for (let i = 1; i <= sampleSize; i++)\<close>: one row, a cell
  for each column of the table.\<close>

definition sample_row :: "js_env \<Rightarrow> string \<Rightarrow> table_config \<Rightarrow> nat \<Rightarrow> row" where
  "sample_row E tableName cfg i =
     map (\<lambda>c. (col_key c, sample_cell E tableName (map_of sampleTemplates tableName) i (col_key c)))
       (cfg_columns cfg)"

text \<open>For a name that is no key of \<open>TABLE_CONFIGS\<close> the first pass of the loop reads
  \<open>.columns\<close> of undefined and throws.\<close>

definition generateSampleData :: "js_env \<Rightarrow> string \<Rightarrow> error + row list" where
  "generateSampleData E tableName =
     (case map_of TABLE_CONFIGS tableName of
        None \<Rightarrow> Inl TypeError
      | Some cfg \<Rightarrow> Inr (map (sample_row E tableName cfg) [1..<Suc sampleSize]))"

subsection \<open>loadTableData\<close>

datatype toast = ToastSuccess string | ToastInfo string | ToastError string

record fetch_request =
  url :: string
  http_method :: string
  body_query :: string
  body_system_type :: string

record api_result =
  success :: bool
  data :: "row list option"

text \<open>What the call of \<open>fetch\<close> comes to: a rejected promise or a body that is no JSON
  (both caught by the inner \<open>catch\<close>), a response that is not ok, or a parsed result.\<close>

datatype fetch_outcome = FetchFailed | ResponseNotOk | ResponseOk api_result

record load_outcome =
  new_state :: manage_source
  toasts :: "toast list"
  sent :: fetch_request
  rejected :: bool

definition check_mark :: string where
  "check_mark = [CHR 0xE2, CHR 0x9C, CHR 0x85]"

definition warning_sign :: string where
  "warning_sign = [CHR 0xE2, CHR 0x9A, CHR 0xA0, CHR 0xEF, CHR 0xB8, CHR 0x8F]"

definition loadTableData_request :: "manage_source \<Rightarrow> fetch_request" where
  "loadTableData_request st =
     \<lparr>url = ''/database/query'', http_method = ''POST'',
      body_query = ''SELECT TOP 1000 * FROM '' @ selectedTable st,
      body_system_type = ''UMS''\<rparr>"

text \<open>The rows of a reply that the page takes as real data:
  \<open>response.ok && result.success && result.data && result.data.length > 0\<close>.\<close>

definition real_rows :: "fetch_outcome \<Rightarrow> row list option" where
  "real_rows out =
     (case out of
        ResponseOk res \<Rightarrow>
          (case data res of
             Some rows \<Rightarrow> (if success res \<and> 0 < length rows then Some rows else None)
           | None \<Rightarrow> None)
      | _ \<Rightarrow> None)"

text \<open>
  \<open>loadTableData\<close>, with the store behind \<open>/database/query\<close> as the parameter \<open>server\<close>.
  Where \<open>TABLE_CONFIGS[selectedTable]\<close> is undefined the message of the toast cannot be
  built: the outer \<open>catch\<close> throws again while it builds its own message, \<open>finally\<close>
  still clears \<open>loading\<close>, and the promise is rejected.
\<close>

definition loadTableData ::
  "js_env \<Rightarrow> (fetch_request \<Rightarrow> fetch_outcome) \<Rightarrow> manage_source \<Rightarrow> load_outcome" where
  "loadTableData E server st =
     (let st1 = st\<lparr>loading := True, selectedRows := {}\<rparr>;
          req = loadTableData_request st
      in case real_rows (server req) of
           Some rows \<Rightarrow>
             (case map_of TABLE_CONFIGS (selectedTable st) of
                Some cfg \<Rightarrow>
                  \<lparr>new_state = st1\<lparr>tableData := rows, loading := False\<rparr>,
                   toasts = [ToastSuccess (check_mark @ '' REAL DATA: Loaded '' @ show_nat (length rows)
                                           @ '' records from '' @ cfg_name cfg)],
                   sent = req, rejected = False\<rparr>
              | None \<Rightarrow>
                  \<lparr>new_state = st1\<lparr>tableData := rows, loading := False\<rparr>,
                   toasts = [], sent = req, rejected = True\<rparr>)
         | None \<Rightarrow>
             (case (generateSampleData E (selectedTable st), map_of TABLE_CONFIGS (selectedTable st)) of
                (Inr sampleData, Some cfg) \<Rightarrow>
                  \<lparr>new_state = st1\<lparr>tableData := sampleData, loading := False\<rparr>,
                   toasts = [ToastInfo (warning_sign @ '' SAMPLE DATA: Showing ''
                                        @ show_nat (length sampleData)
                                        @ '' fake records for '' @ cfg_name cfg)],
                   sent = req, rejected = False\<rparr>
              | _ \<Rightarrow>
                  \<lparr>new_state = st1\<lparr>loading := False\<rparr>, toasts = [], sent = req, rejected = True\<rparr>))"

subsection \<open>filterAndSortData\<close>

text \<open>The callback of \<open>filtered.filter\<close>: some column of the table holds a value that is
  neither null nor undefined and whose lower-cased text includes the lower-cased term.\<close>

definition row_matches :: "js_env \<Rightarrow> column list \<Rightarrow> string \<Rightarrow> row \<Rightarrow> bool" where
  "row_matches E cols term r =
     list_ex (\<lambda>c. let v = field r (col_key c)
                  in if v = JNull \<or> v = JUndefined then False
                     else sublist (toLowerCase term) (toLowerCase (toString E v))) cols"

text \<open>The two \<open>if\<close>s that end the comparator, on the outcomes of \<open>aValue < bValue\<close> and
  \<open>aValue > bValue\<close>.\<close>

definition order_result :: "bool \<Rightarrow> bool \<Rightarrow> direction \<Rightarrow> int" where
  "order_result lt gt dir =
     (if lt then (if dir = Asc then - 1 else 1)
      else if gt then (if dir = Asc then 1 else - 1)
      else 0)"

definition nullish_to_empty :: "jsval \<Rightarrow> jsval" where
  "nullish_to_empty v = (if v = JNull \<or> v = JUndefined then JStr [] else v)"

text \<open>\<open>columnConfig?.type\<close> for \<open>columnConfig = columns.find(col => col.key === k)\<close>:
  undefined when the table has no such column.\<close>

definition column_type :: "column list \<Rightarrow> string \<Rightarrow> col_type option" where
  "column_type cols k = map_option col_type (find (\<lambda>c. col_key c = k) cols)"

text \<open>The comparator handed to \<open>filtered.sort\<close>, for the columns of the selected table.\<close>

definition compare_rows ::
  "js_env \<Rightarrow> column list \<Rightarrow> string \<Rightarrow> direction \<Rightarrow> row \<Rightarrow> row \<Rightarrow> int" where
  "compare_rows E cols k dir a b =
     (let aValue = nullish_to_empty (field a k);
          bValue = nullish_to_empty (field b k)
      in case column_type cols k of
           Some TNumber \<Rightarrow>
             (let an = or_zero (parseFloat E aValue); bn = or_zero (parseFloat E bValue)
              in order_result (num_lt an bn) (num_lt bn an) dir)
         | Some TDate \<Rightarrow>
             (let an = or_zero (date_getTime E aValue); bn = or_zero (date_getTime E bValue)
              in order_result (num_lt an bn) (num_lt bn an) dir)
         | Some TDatetime \<Rightarrow>
             (let an = or_zero (date_getTime E aValue); bn = or_zero (date_getTime E bValue)
              in order_result (num_lt an bn) (num_lt bn an) dir)
         | _ \<Rightarrow>
             (let as = toLowerCase (toString E aValue); bs = toLowerCase (toString E bValue)
              in order_result (as < bs) (bs < as) dir))"

text \<open>
  \<open>filterAndSortData\<close>. \<open>TABLE_CONFIGS[selectedTable]\<close> is read inside the two
  callbacks only, so an unknown table name throws when a callback runs: in the filter
  when there is a row, in the sort when there are two rows to compare.
\<close>

definition filterAndSortData :: "js_env \<Rightarrow> manage_source \<Rightarrow> error + manage_source" where
  "filterAndSortData E st =
     (let currentConfig = map_of TABLE_CONFIGS (selectedTable st);
          filtered =
            (if searchTerm st \<noteq> [] then
               (case currentConfig of
                  None \<Rightarrow> (if tableData st = [] then Inr [] else Inl TypeError)
                | Some cfg \<Rightarrow> Inr (filter (row_matches E (cfg_columns cfg) (searchTerm st)) (tableData st)))
             else Inr (tableData st))
      in case filtered of
           Inl e \<Rightarrow> Inl e
         | Inr rows \<Rightarrow>
             (case key (sortConfig st) of
                None \<Rightarrow> Inr (st\<lparr>filteredData := rows\<rparr>)
              | Some k \<Rightarrow>
                  (if k = [] then Inr (st\<lparr>filteredData := rows\<rparr>)
                   else case currentConfig of
                          None \<Rightarrow> (if length rows < 2 then Inr (st\<lparr>filteredData := rows\<rparr>)
                                    else Inl TypeError)
                        | Some cfg \<Rightarrow>
                            Inr (st\<lparr>filteredData :=
                                   js_sort (compare_rows E (cfg_columns cfg) k (direction (sortConfig st))) rows\<rparr>))))"





text \<open>
  The states the page can be in: it starts on \<open>InspectionData\<close>; the table buttons are
  rendered from \<open>Object.keys(TABLE_CONFIGS)\<close> and are the only callers of
  \<open>handleTableChange\<close>; the search box takes any text; the effects run \<open>loadTableData\<close>
  and \<open>filterAndSortData\<close>.
\<close>

inductive reachable :: "manage_source \<Rightarrow> bool" where
  init: "reachable ManageSource_init"
| table_button: "reachable st \<Longrightarrow> tableName \<in> set table_keys \<Longrightarrow> reachable (handleTableChange tableName st)"
| search_box: "reachable st \<Longrightarrow> reachable (setSearchTerm s st)"
| sort_header: "reachable st \<Longrightarrow> reachable (handleSort k st)"
| row_box: "reachable st \<Longrightarrow> reachable (handleSelectRow rid st)"
| page_button: "reachable st \<Longrightarrow> reachable (setCurrentPage p st)"
| rows_selector: "reachable st \<Longrightarrow> reachable (changeRowsPerPage n st)"
| load_effect: "reachable st \<Longrightarrow> reachable (new_state (loadTableData E server st))"
| filter_effect: "reachable st \<Longrightarrow> filterAndSortData E st = Inr st' \<Longrightarrow> reachable st'"

section \<open>ChatAsk: the conversation\<close>

datatype role = User | Assistant

record message =
  role :: role
  content :: string
  msg_contextInfo :: "string option"

record chat_ask =
  messages :: "message list"
  currentInput :: string
  isLoading :: bool
  error :: "string option"
  useRAG :: bool
  contextInfo :: "string option"

definition ChatAsk_init :: chat_ask where
  "ChatAsk_init =
     \<lparr>messages = [], currentInput = [], isLoading = False, error = None, useRAG = True,
      contextInfo = None\<rparr>"



text \<open>What \<open>generateRAGReply\<close> or \<open>generateReply\<close> comes to: a response with its text and
  an optional context summary, or a rejected promise.\<close>

record api_response =
  response :: string
  context_summary :: "string option"

datatype api_reply = Replied api_response | ReplyFailed


text \<open>\<open>handleSubmit\<close> from the \<open>await\<close> on: the \<open>try\<close> branch, the \<open>catch\<close> branch and
  \<open>finally\<close>.\<close>

definition submit_finish :: "message list \<Rightarrow> api_reply \<Rightarrow> chat_ask \<Rightarrow> chat_ask" where
  "submit_finish updatedMessages reply st =
     (case reply of
        Replied r \<Rightarrow>
          (let st1 = (case context_summary r of None \<Rightarrow> st | Some c \<Rightarrow> st\<lparr>contextInfo := Some c\<rparr>);
               botMessage = \<lparr>role = Assistant, content = response r,
                             msg_contextInfo = context_summary r\<rparr>
           in st1\<lparr>messages := updatedMessages @ [botMessage], isLoading := False\<rparr>)
      | ReplyFailed \<Rightarrow>
          (let errorMessage =
                 \<lparr>role = Assistant,
                  content = ''Sorry, I encountered an error. Please try asking your question again.'',
                  msg_contextInfo = None\<rparr>
           in st\<lparr>error := Some ''Failed to get response. Please try again.'',
                 messages := updatedMessages @ [errorMessage], isLoading := False\<rparr>))"






datatype chat_event =
  Type string | Submit | Arrive api_reply | Clear | SwitchRAG bool





section \<open>UploadDocument.jsx: processFile\<close>










section \<open>The ingestion pipeline\<close>

text \<open>
  Modelled from the spec: the backend that ingests documents (the hasher, the extractor,
  the chunker, the embedding client, the vector index and the metadata store) is not
  among the sources; the frontend pages only call it over HTTP. The definitions of this
  section follow sections 3, 4.1 to 4.6 and 6 of the specification.
\<close>

type_synonym digest = string

record document =
  content_hash :: digest
  display_name :: string
  byte_size :: nat
  segment_count :: nat

record chunk =
  chunk_owner :: digest
  chunk_index :: nat
  chunk_text :: string

record vector_entry =
  entry_owner :: digest
  entry_index :: nat
  entry_vector :: "real list"

record knowledge_base =
  documents :: "document list"
  chunks :: "chunk list"
  vectorIndex :: "vector_entry list"

datatype ingest_result =
  Ingested document | DuplicateContent digest | UnsupportedFormat | CorruptInput | ProviderUnavailable

datatype extract_failure = Unsupported | Corrupt

definition failure_result :: "extract_failure \<Rightarrow> ingest_result" where
  "failure_result e = (case e of Unsupported \<Rightarrow> UnsupportedFormat | Corrupt \<Rightarrow> CorruptInput)"

text \<open>Modelled from the spec: the collaborators of the pipeline, each by its contract:
  \<open>hash(bytes)\<close>, \<open>extract(bytes, declaredType)\<close> with its two failures,
  \<open>chunk(segments)\<close> and \<open>embed(texts)\<close>, which fails as a whole.\<close>

record pipeline =
  hash :: "string \<Rightarrow> digest"
  extract_text :: "string \<Rightarrow> string \<Rightarrow> extract_failure + string list"
  chunker :: "string list \<Rightarrow> string list"
  embed :: "string list \<Rightarrow> real list list option"

definition empty_base :: knowledge_base where
  "empty_base = \<lparr>documents = [], chunks = [], vectorIndex = []\<rparr>"

text \<open>Modelled from the spec: \<open>IngestionPipeline.ingest(bytes, displayName)\<close>, section 4.1:
  compute the digest; if a Document with this digest exists, fail with
  \<open>DuplicateContent\<close> and the identity of that Document; otherwise extract, chunk and
  embed, and persist nothing unless all of it succeeds.\<close>

definition ingest ::
  "pipeline \<Rightarrow> knowledge_base \<Rightarrow> string \<Rightarrow> string \<Rightarrow> ingest_result \<times> knowledge_base" where
  "ingest P kb bytes displayName =
     (let d = hash P bytes
      in case find (\<lambda>doc. content_hash doc = d) (documents kb) of
           Some doc \<Rightarrow> (DuplicateContent (content_hash doc), kb)
         | None \<Rightarrow>
             (case extract_text P bytes displayName of
                Inl failure \<Rightarrow> (failure_result failure, kb)
              | Inr segments \<Rightarrow>
                  (let texts = chunker P segments
                   in case embed P texts of
                        None \<Rightarrow> (ProviderUnavailable, kb)
                      | Some vectors \<Rightarrow>
                          (let doc = \<lparr>content_hash = d, display_name = displayName,
                                      byte_size = length bytes, segment_count = length segments\<rparr>;
                               cs = map (\<lambda>(i, t). \<lparr>chunk_owner = d, chunk_index = i, chunk_text = t\<rparr>)
                                      (enumerate 0 texts);
                               es = map (\<lambda>(i, v). \<lparr>entry_owner = d, entry_index = i, entry_vector = v\<rparr>)
                                      (enumerate 0 vectors)
                           in (Ingested doc,
                               kb\<lparr>documents := documents kb @ [doc], chunks := chunks kb @ cs,
                                  vectorIndex := vectorIndex kb @ es\<rparr>)))))"

text \<open>Modelled from the spec: \<open>deleteDocument(documentId)\<close>, sections 4.5 and 4.6: the
  Document, its Chunks and its VectorEntries go together; \<open>None\<close> is \<open>NotFound\<close>.\<close>

definition deleteDocument :: "knowledge_base \<Rightarrow> digest \<Rightarrow> knowledge_base option" where
  "deleteDocument kb d =
     (if d \<in> content_hash ` set (documents kb)
      then Some (kb\<lparr>documents := filter (\<lambda>doc. content_hash doc \<noteq> d) (documents kb),
                    chunks := filter (\<lambda>c. chunk_owner c \<noteq> d) (chunks kb),
                    vectorIndex := filter (\<lambda>e. entry_owner e \<noteq> d) (vectorIndex kb)\<rparr>)
      else None)"

text \<open>The knowledge bases that ingestions and deletions can produce from the empty one.\<close>

inductive base_reachable :: "pipeline \<Rightarrow> knowledge_base \<Rightarrow> bool" for P where
  empty: "base_reachable P empty_base"
| ingested: "base_reachable P kb \<Longrightarrow> base_reachable P (snd (ingest P kb bytes displayName))"
| deleted: "base_reachable P kb \<Longrightarrow> deleteDocument kb d = Some kb' \<Longrightarrow> base_reachable P kb'"

section \<open>Example inputs\<close>

definition three_rows :: "row list" where
  "three_rows = [[(''ID'', JNum (Fin 1))], [(''ID'', JNum (Fin 2))], [(''ID'', JNum (Fin 3))]]"

definition env0 :: js_env where
  "env0 = \<lparr>parseFloat_str = (\<lambda>s. NaN), date_getTime = (\<lambda>v. NaN), number_toString = (\<lambda>n. ''0''),
            toISOString = (\<lambda>t. ''2025-01-01T00:00:00.000Z''), random = (\<lambda>i k j. 0), now = 0\<rparr>"


definition failing_store :: "fetch_request \<Rightarrow> fetch_outcome" where
  "failing_store req = FetchFailed"


definition asking :: chat_ask where
  "asking = ChatAsk_init\<lparr>currentInput := '' hello ''\<rparr>"



definition rejecting_pipeline :: pipeline where
  "rejecting_pipeline =
     \<lparr>hash = (\<lambda>b. b), extract_text = (\<lambda>b n. Inl Unsupported), chunker = (\<lambda>segs. segs),
      embed = (\<lambda>ts. Some (map (\<lambda>t. [0]) ts))\<rparr>"

definition accepting_pipeline :: pipeline where
  "accepting_pipeline =
     \<lparr>hash = (\<lambda>b. b), extract_text = (\<lambda>b n. Inr [b]), chunker = (\<lambda>segs. segs),
      embed = (\<lambda>ts. Some (map (\<lambda>t. [0]) ts))\<rparr>"

definition model_rows :: "row list" where
  "model_rows = [[(''ID'', JNum (Fin 1)), (''Model_Code'', JStr ''b'')],
                 [(''ID'', JNum (Fin 2)), (''Model_Code'', JStr ''A'')],
                 [(''ID'', JNum (Fin 3)), (''Model_Code'', JStr ''a'')],
                 [(''ID'', JNum (Fin 4)), (''Model_Code'', JNull)]]"

definition sorting_by_model :: manage_source where
  "sorting_by_model =
     ManageSource_init\<lparr>tableData := model_rows, sortConfig := \<lparr>key = Some ''Model_Code'', direction = Asc\<rparr>\<rparr>"

section \<open>Row selection\<close>

lemma handleSelectRow_rows:
  "selectedRows (handleSelectRow rid st) =
     (if rid \<in> selectedRows st then selectedRows st - {rid} else insert rid (selectedRows st))"
  by (simp add: handleSelectRow_def)

text \<open>
  Claim C9. Toggling the selection of a row twice with the same id gives back the
  state it started from, and one toggle flips the membership of that id and of no other.
\<close>

theorem handleSelectRow_involution_frame:
  "handleSelectRow rid (handleSelectRow rid st) = st
   \<and> (rid \<in> selectedRows (handleSelectRow rid st)) = (rid \<notin> selectedRows st)
   \<and> (\<forall>other. other \<noteq> rid \<longrightarrow>
         (other \<in> selectedRows (handleSelectRow rid st)) = (other \<in> selectedRows st))"
proof -
  have twice: "selectedRows (handleSelectRow rid (handleSelectRow rid st)) = selectedRows st"
    by (auto simp: handleSelectRow_rows)
  have "handleSelectRow rid (handleSelectRow rid st)
          = st\<lparr>selectedRows := selectedRows (handleSelectRow rid (handleSelectRow rid st))\<rparr>"
    by (simp add: handleSelectRow_def Let_def)
  then have "handleSelectRow rid (handleSelectRow rid st) = st"
    by (simp add: twice)
  moreover have "(rid \<in> selectedRows (handleSelectRow rid st)) = (rid \<notin> selectedRows st)"
    by (simp add: handleSelectRow_rows)
  moreover have "\<forall>other. other \<noteq> rid \<longrightarrow>
         (other \<in> selectedRows (handleSelectRow rid st)) = (other \<in> selectedRows st)"
    by (simp add: handleSelectRow_rows)
  ultimately show ?thesis by blast
qed

theorem handleSelectRow_involution_frame_witness:
  "handleSelectRow (JNum (Fin 1)) (handleSelectRow (JNum (Fin 1)) ManageSource_init) = ManageSource_init
   \<and> JNum (Fin 2) \<noteq> JNum (Fin 1)
   \<and> (JNum (Fin 2) \<in> selectedRows (handleSelectRow (JNum (Fin 1)) ManageSource_init))
       = (JNum (Fin 2) \<in> selectedRows ManageSource_init)"
  using handleSelectRow_involution_frame[of "JNum (Fin 1)" ManageSource_init] by simp

section \<open>Pagination\<close>

lemma js_slice_nonneg:
  "0 \<le> s \<Longrightarrow> 0 \<le> d \<Longrightarrow> js_slice xs s (s + d) = take (nat d) (drop (nat s) xs)"
  by (cases "s \<le> int (length xs)") (auto simp: js_slice_def Let_def min_def)

lemma concat_pages:
  "concat (map (\<lambda>i. take k (drop (i * k) xs)) [0..<m]) = take (m * k) xs"
proof (induction m)
  case 0
  show ?case by simp
next
  case (Suc m)
  have "Suc m * k = m * k + k" by simp
  then have "take (Suc m * k) xs = take (m * k) xs @ take k (drop (m * k) xs)"
    by (simp only: take_add)
  with Suc show ?case by simp
qed

lemma upto_as_upt: "0 \<le> n \<Longrightarrow> [1..n] = map (\<lambda>i. int i + 1) [0..<nat n]"
proof (induction "nat n" arbitrary: n)
  case 0
  then show ?case by simp
next
  case (Suc m)
  then have n: "n = int m + 1" by linarith
  have "[1..int m + 1] = [1..int m] @ [int m + 1]"
    by (simp add: upto_rec2)
  moreover have "[1..int m] = map (\<lambda>i. int i + 1) [0..<nat (int m)]"
    using Suc.hyps(1)[of "int m"] by simp
  moreover have "nat (int m + 1) = Suc m" by simp
  ultimately show ?case using n by (simp del: upt_Suc add: upt_Suc_append)
qed

lemma ceil_pages:
  assumes "0 < (r::int)"
  shows "0 \<le> \<lceil>real (n::nat) / real_of_int r\<rceil>" "n \<le> nat \<lceil>real n / real_of_int r\<rceil> * nat r"
proof -
  let ?c = "\<lceil>real n / real_of_int r\<rceil>"
  have "0 \<le> real n / real_of_int r" using assms by simp
  then show c0: "0 \<le> ?c" by linarith
  have "real n / real_of_int r \<le> real_of_int ?c" by (rule le_of_int_ceiling)
  then have "real n / real_of_int r * real_of_int r \<le> real_of_int ?c * real_of_int r"
    using assms by (intro mult_right_mono) simp_all
  moreover have "real n / real_of_int r * real_of_int r = real n"
    using assms by simp
  ultimately have "real n \<le> real_of_int ?c * real_of_int r"
    by (simp only:)
  then have "int n \<le> ?c * r"
    by (metis of_int_le_iff of_int_mult of_int_of_nat_eq)
  then show "n \<le> nat ?c * nat r"
    using c0 assms by (metis nat_int nat_mono nat_mult_distrib)
qed

text \<open>
  Claim C8. For a page number from 1 and a positive number of rows per page,
  \<open>getPaginatedData\<close> is the slice of \<open>filteredData\<close> that starts at
  \<open>(currentPage - 1) * rowsPerPage\<close> and has at most \<open>rowsPerPage\<close> rows, and the pages
  1 to \<open>totalPages\<close> (the ceiling of length / rowsPerPage), one after the other, are
  \<open>filteredData\<close> itself.
\<close>

theorem getPaginatedData_pages:
  assumes "1 \<le> currentPage st" and "0 < rowsPerPage st"
  shows "getPaginatedData st =
           take (nat (rowsPerPage st))
             (drop (nat ((currentPage st - 1) * rowsPerPage st)) (filteredData st))
         \<and> int (length (getPaginatedData st)) \<le> rowsPerPage st
         \<and> (\<exists>n. totalPages st = Fin (of_int n)
               \<and> n = \<lceil>real (length (filteredData st)) / real_of_int (rowsPerPage st)\<rceil>
               \<and> concat (map (\<lambda>p. getPaginatedData (st\<lparr>currentPage := p\<rparr>)) [1..n])
                   = filteredData st)"
proof -
  let ?r = "rowsPerPage st" and ?xs = "filteredData st"
  let ?n = "\<lceil>real (length ?xs) / real_of_int ?r\<rceil>"
  have page: "getPaginatedData (st\<lparr>currentPage := p\<rparr>)
               = take (nat ?r) (drop (nat ((p - 1) * ?r)) ?xs)" if "1 \<le> p" for p
    using that assms(2) by (simp add: getPaginatedData_def Let_def js_slice_nonneg)
  have one: "getPaginatedData st = take (nat ?r) (drop (nat ((currentPage st - 1) * ?r)) ?xs)"
    using page[OF assms(1)] by simp
  have two: "int (length (getPaginatedData st)) \<le> ?r"
    using assms(2) by (simp add: one)
  have tp: "totalPages st = Fin (of_int ?n)"
    using assms(2) by (simp add: totalPages_def)
  have n0: "0 \<le> ?n" and cover: "length ?xs \<le> nat ?n * nat ?r"
    using ceil_pages[OF assms(2)] by blast+
  have "map (\<lambda>p. getPaginatedData (st\<lparr>currentPage := p\<rparr>)) [1..?n]
          = map (\<lambda>i. take (nat ?r) (drop (i * nat ?r) ?xs)) [0..<nat ?n]"
    using assms(2) by (simp add: upto_as_upt[OF n0] page nat_mult_distrib o_def)
  then have "concat (map (\<lambda>p. getPaginatedData (st\<lparr>currentPage := p\<rparr>)) [1..?n])
          = take (nat ?n * nat ?r) ?xs"
    by (simp add: concat_pages)
  then have three: "concat (map (\<lambda>p. getPaginatedData (st\<lparr>currentPage := p\<rparr>)) [1..?n]) = ?xs"
    using cover by simp
  from one two tp three show ?thesis by blast
qed

theorem getPaginatedData_pages_witness:
  "1 \<le> currentPage (ManageSource_init\<lparr>filteredData := three_rows, currentPage := 2, rowsPerPage := 2\<rparr>)
   \<and> 0 < rowsPerPage (ManageSource_init\<lparr>filteredData := three_rows, currentPage := 2, rowsPerPage := 2\<rparr>)
   \<and> getPaginatedData (ManageSource_init\<lparr>filteredData := three_rows, currentPage := 2, rowsPerPage := 2\<rparr>)
       = [[(''ID'', JNum (Fin 3))]]"
  using getPaginatedData_pages[of "ManageSource_init\<lparr>filteredData := three_rows, currentPage := 2, rowsPerPage := 2\<rparr>"]
  by (simp add: three_rows_def)

section \<open>Loading a table\<close>

lemma table_keys_set:
  "set table_keys = {''InspectionData'', ''Machine_Tracking'', ''UC_Life_Time''}"
  by (simp add: table_keys_def TABLE_CONFIGS_def)



lemma sent_loadTableData: "sent (loadTableData E server st) = loadTableData_request st"
  by (simp add: loadTableData_def Let_def split: option.splits sum.splits)

lemma selectedTable_loadTableData:
  "selectedTable (new_state (loadTableData E server st)) = selectedTable st"
  by (simp add: loadTableData_def Let_def split: option.splits sum.splits)

lemma selectedTable_filterAndSortData:
  "filterAndSortData E st = Inr st' \<Longrightarrow> selectedTable st' = selectedTable st"
  by (auto simp: filterAndSortData_def Let_def split: option.splits sum.splits if_splits)

lemma reachable_selectedTable: "reachable st \<Longrightarrow> selectedTable st \<in> set table_keys"
proof (induction rule: reachable.induct)
  case init
  show ?case by (simp add: ManageSource_init_def table_keys_set)
next
  case (load_effect st E server)
  then show ?case by (simp add: selectedTable_loadTableData)
next
  case (filter_effect st E st')
  then show ?case by (simp add: selectedTable_filterAndSortData)
qed (simp_all add: handleTableChange_def setSearchTerm_def handleSort_def Let_def
       handleSelectRow_def setCurrentPage_def changeRowsPerPage_def)



lemma show_nat_1000: "show_nat 1000 = ''1000''"
  by code_simp

text \<open>
  Claim C2. Two runs of \<open>loadTableData\<close> that differ in the search term only (and even
  in the built-ins and in the store) send the same request: the query is
  \<open>SELECT TOP 1000 * FROM\<close> followed by the selected table, and in every state the page
  can reach the selected table is one of the keys of \<open>TABLE_CONFIGS\<close>, which are
  InspectionData, Machine_Tracking and UC_Life_Time.
\<close>

theorem loadTableData_query_ignores_search:
  assumes "reachable st"
  shows "sent (loadTableData E' server' (st\<lparr>searchTerm := s\<rparr>)) = sent (loadTableData E server st)
         \<and> body_query (sent (loadTableData E server st)) = ''SELECT TOP 1000 * FROM '' @ selectedTable st
         \<and> selectedTable st \<in> set (map fst TABLE_CONFIGS)
         \<and> set (map fst TABLE_CONFIGS) = {''InspectionData'', ''Machine_Tracking'', ''UC_Life_Time''}"
  using reachable_selectedTable[OF assms] table_keys_set
  by (simp add: sent_loadTableData loadTableData_request_def table_keys_def)

theorem loadTableData_query_ignores_search_witness:
  "reachable (setSearchTerm ''pc200'' (handleTableChange ''UC_Life_Time'' ManageSource_init))
   \<and> body_query (sent (loadTableData env0 failing_store
         ((setSearchTerm ''pc200'' (handleTableChange ''UC_Life_Time'' ManageSource_init))\<lparr>searchTerm := ''x'' \<rparr>)))
       = ''SELECT TOP 1000 * FROM UC_Life_Time''"
proof -
  have "''UC_Life_Time'' \<in> set table_keys" by (simp add: table_keys_set)
  then have r: "reachable (setSearchTerm ''pc200'' (handleTableChange ''UC_Life_Time'' ManageSource_init))"
    by (intro reachable.search_box reachable.table_button reachable.init)
  show ?thesis
    using r loadTableData_query_ignores_search[OF r, of env0 failing_store "''x''" env0 failing_store]
    by (simp add: setSearchTerm_def handleTableChange_def)
qed




section \<open>The conversation log\<close>





lemma submit_finish_not_loading: "\<not> isLoading (submit_finish ums r st)"
  by (cases r) (auto simp: submit_finish_def Let_def split: option.splits)










section \<open>Degrading when a source fails\<close>




section \<open>Choosing a document to upload\<close>









section \<open>Deduplication by content hash\<close>

lemma ingest_existing:
  "find (\<lambda>doc. content_hash doc = hash P bytes) (documents kb) = Some doc \<Longrightarrow>
     ingest P kb bytes displayName = (DuplicateContent (hash P bytes), kb)"
proof -
  assume f: "find (\<lambda>doc. content_hash doc = hash P bytes) (documents kb) = Some doc"
  then have "content_hash doc = hash P bytes"
    by (auto simp: find_Some_iff)
  with f show ?thesis by (simp add: ingest_def Let_def)
qed

lemma ingest_stored:
  assumes "fst (ingest P kb bytes n) = Ingested doc \<or> fst (ingest P kb bytes n) = DuplicateContent d"
  shows "\<exists>doc'. find (\<lambda>x. content_hash x = hash P bytes) (documents (snd (ingest P kb bytes n))) = Some doc'"
proof (cases "find (\<lambda>x. content_hash x = hash P bytes) (documents kb)")
  case (Some a)
  then have "ingest P kb bytes n = (DuplicateContent (hash P bytes), kb)"
    by (rule ingest_existing)
  with Some show ?thesis by simp
next
  case None
  let ?new = "\<lparr>content_hash = hash P bytes, display_name = n, byte_size = length bytes,
                segment_count = length (projr (extract_text P bytes n))\<rparr>"
  from None assms have "documents (snd (ingest P kb bytes n)) = documents kb @ [?new]"
    by (auto simp: ingest_def Let_def failure_result_def split: sum.splits option.splits extract_failure.splits)
  then have "\<exists>x. x \<in> set (documents (snd (ingest P kb bytes n))) \<and> content_hash x = hash P bytes"
    by (intro exI[of _ ?new]) simp
  then have "find (\<lambda>x. content_hash x = hash P bytes) (documents (snd (ingest P kb bytes n))) \<noteq> None"
    by (simp only: find_None_iff not_not)
  then show ?thesis by blast
qed

lemma documents_ingest:
  "documents (snd (ingest P kb bytes n)) = documents kb
   \<or> (hash P bytes \<notin> content_hash ` set (documents kb)
       \<and> (\<exists>doc. content_hash doc = hash P bytes
              \<and> documents (snd (ingest P kb bytes n)) = documents kb @ [doc]))"
proof (cases "find (\<lambda>x. content_hash x = hash P bytes) (documents kb)")
  case (Some a)
  then show ?thesis by (simp add: ingest_existing)
next
  case None
  then have "hash P bytes \<notin> content_hash ` set (documents kb)"
    by (auto simp: find_None_iff)
  with None show ?thesis
    by (auto simp: ingest_def Let_def split: sum.splits option.splits)
qed

lemma reachable_distinct_hashes:
  "base_reachable P kb \<Longrightarrow> distinct (map content_hash (documents kb))"
proof (induction rule: base_reachable.induct)
  case empty
  show ?case by (simp add: empty_base_def)
next
  case (ingested kb bytes displayName)
  from documents_ingest[of P kb bytes displayName] ingested.IH show ?case
    by auto
next
  case (deleted kb d kb')
  then have "documents kb' = filter (\<lambda>doc. content_hash doc \<noteq> d) (documents kb)"
    by (auto simp: deleteDocument_def split: if_splits)
  with deleted.IH show ?case by (simp add: distinct_map_filter)
qed

text \<open>
  Claim C1, as stated, fails on the pipeline of the specification: a first call that
  fails in extraction stores no Document, so the second call with the same bytes fails
  in extraction again, not with \<open>DuplicateContent\<close>.
\<close>

theorem ingest_rejected_twice:
  "ingest rejecting_pipeline (snd (ingest rejecting_pipeline empty_base ''x'' ''a.bin'')) ''x'' ''a.bin''
     = (UnsupportedFormat, empty_base)"
  by (simp add: ingest_def rejecting_pipeline_def empty_base_def failure_result_def)

text \<open>
  Claim C1, amended. When the first of two ingest calls with byte-identical content
  stores the Document or finds it stored (it returns the Document or
  \<open>DuplicateContent\<close>), the second call fails with \<open>DuplicateContent\<close> and the hash of
  the Document that exists, and leaves the vector index and the metadata store as they
  were; and in every knowledge base that ingestions and deletions can produce, no two
  Documents have the same content hash.
\<close>

theorem ingest_duplicate_idempotent:
  "(fst (ingest P kb bytes n1) = Ingested doc \<or> fst (ingest P kb bytes n1) = DuplicateContent d
      \<longrightarrow> ingest P (snd (ingest P kb bytes n1)) bytes n2
            = (DuplicateContent (hash P bytes), snd (ingest P kb bytes n1))
          \<and> (\<exists>stored \<in> set (documents (snd (ingest P kb bytes n1))). content_hash stored = hash P bytes))
   \<and> (base_reachable P kb' \<longrightarrow> distinct (map content_hash (documents kb')))"
proof -
  have "ingest P (snd (ingest P kb bytes n1)) bytes n2
            = (DuplicateContent (hash P bytes), snd (ingest P kb bytes n1))
          \<and> (\<exists>stored \<in> set (documents (snd (ingest P kb bytes n1))). content_hash stored = hash P bytes)"
    if h: "fst (ingest P kb bytes n1) = Ingested doc \<or> fst (ingest P kb bytes n1) = DuplicateContent d"
  proof -
    from ingest_stored[OF h] obtain doc' where
      f: "find (\<lambda>x. content_hash x = hash P bytes) (documents (snd (ingest P kb bytes n1))) = Some doc'"
      by blast
    then have "doc' \<in> set (documents (snd (ingest P kb bytes n1)))" "content_hash doc' = hash P bytes"
      by (auto simp: find_Some_iff)
    with ingest_existing[OF f, of n2] show ?thesis by blast
  qed
  moreover have "base_reachable P kb' \<longrightarrow> distinct (map content_hash (documents kb'))"
    using reachable_distinct_hashes by blast
  ultimately show ?thesis by blast
qed

theorem ingest_duplicate_idempotent_witness:
  "fst (ingest accepting_pipeline empty_base ''x'' ''a.pdf'')
     = Ingested \<lparr>content_hash = ''x'', display_name = ''a.pdf'', byte_size = 1, segment_count = 1\<rparr>
   \<and> fst (ingest accepting_pipeline (snd (ingest accepting_pipeline empty_base ''x'' ''a.pdf'')) ''x'' ''b.pdf'')
       = DuplicateContent ''x''
   \<and> base_reachable accepting_pipeline (snd (ingest accepting_pipeline empty_base ''x'' ''a.pdf''))
   \<and> distinct (map content_hash (documents (snd (ingest accepting_pipeline empty_base ''x'' ''a.pdf''))))"
proof -
  let ?doc = "\<lparr>content_hash = ''x'', display_name = ''a.pdf'', byte_size = 1, segment_count = 1\<rparr>"
  have a: "fst (ingest accepting_pipeline empty_base ''x'' ''a.pdf'') = Ingested ?doc"
    by (simp add: ingest_def accepting_pipeline_def empty_base_def Let_def)
  have r: "base_reachable accepting_pipeline (snd (ingest accepting_pipeline empty_base ''x'' ''a.pdf''))"
    by (intro base_reachable.ingested base_reachable.empty)
  have h: "hash accepting_pipeline ''x'' = ''x''" by (simp add: accepting_pipeline_def)
  from ingest_duplicate_idempotent[of accepting_pipeline empty_base "''x''" "''a.pdf''" ?doc _ "''b.pdf''"
        "snd (ingest accepting_pipeline empty_base ''x'' ''a.pdf'')"] a r h
  have "fst (ingest accepting_pipeline (snd (ingest accepting_pipeline empty_base ''x'' ''a.pdf'')) ''x'' ''b.pdf'')
       = DuplicateContent ''x''
     \<and> distinct (map content_hash (documents (snd (ingest accepting_pipeline empty_base ''x'' ''a.pdf''))))"
    by simp
  with a r show ?thesis by blast
qed

section \<open>Sorting the rows\<close>



























lemma sorting_by_model_result:
  "map_sum id filteredData (filterAndSortData env0 sorting_by_model)
     = Inr [[(''ID'', JNum (Fin 4)), (''Model_Code'', JNull)],
            [(''ID'', JNum (Fin 2)), (''Model_Code'', JStr ''A'')],
            [(''ID'', JNum (Fin 3)), (''Model_Code'', JStr ''a'')],
            [(''ID'', JNum (Fin 1)), (''Model_Code'', JStr ''b'')]]"
  by code_simp


end
